theory Spec2Isabelle
  imports Main
begin

section \<open>The build plan (the part of buildkit's llb that system.go uses)\<close>

text \<open>
  An \<open>llb.State\<close> is modelled by the ordered list of build steps that produced it.
  The zero value \<open>llb.State{}\<close> and \<open>llb.Scratch()\<close> are both the empty list.
  Every mount of system.go has \<open>llb.Scratch()\<close> as its source.
\<close>

datatype cache_sharing = CacheMountShared | CacheMountPrivate | CacheMountLocked

datatype mount_source = Scratch

datatype mount_option = AsPersistentCacheDir string cache_sharing

datatype mount = Mount string mount_source mount_option

text \<open>File actions carry path, mode, (parents flag or content) and the owner of \<open>WithUIDGID\<close>.\<close>

datatype file_action =
    Mkdir string nat bool "int \<times> int"
  | Mkfile string nat string "int \<times> int"

text \<open>
  A step: base image, shell run (the string given to \<open>llb.Shlex\<close>, the custom name, the
  mounts), environment variable, file action (with its custom name), image user.
\<close>

datatype step =
    ImageOp string
  | RunOp string "string option" "mount list"
  | EnvOp string string
  | FileOp file_action "string option"
  | UserOp string

type_synonym state = "step list"

text \<open>
  \<open>llb.ExecState\<close>: the state the command runs on and the exec operation being built.
  \<open>AddMount\<close> changes the exec operation in place; \<open>Root\<close> gives the state after the run.
\<close>

datatype exec_state = ExecState state string "string option" "mount list"

definition llb_Image :: "string \<Rightarrow> state" where
  "llb_Image ref = [ImageOp ref]"

definition llb_Run :: "state \<Rightarrow> string \<Rightarrow> string option \<Rightarrow> exec_state" where
  "llb_Run s c n = ExecState s c n []"

fun llb_Root :: "exec_state \<Rightarrow> state" where
  "llb_Root (ExecState s c n ms) = s @ [RunOp c n ms]"

definition exec_Run :: "exec_state \<Rightarrow> string \<Rightarrow> string option \<Rightarrow> exec_state" where
  "exec_Run e c n = llb_Run (llb_Root e) c n"

fun AddMount :: "exec_state \<Rightarrow> string \<Rightarrow> mount_source \<Rightarrow> mount_option \<Rightarrow> exec_state" where
  "AddMount (ExecState s c n ms) target src opt = ExecState s c n (ms @ [Mount target src opt])"

definition AddEnv :: "state \<Rightarrow> string \<Rightarrow> string \<Rightarrow> state" where
  "AddEnv s k v = s @ [EnvOp k v]"

definition llb_File :: "state \<Rightarrow> file_action \<Rightarrow> string option \<Rightarrow> state" where
  "llb_File s a n = s @ [FileOp a n]"

definition llb_User :: "string \<Rightarrow> state \<Rightarrow> state" where
  "llb_User u s = s @ [UserOp u]"

section \<open>Go library functions\<close>

text \<open>A string between two double-quote characters, as \<open>\"%s\"\<close> in a Go format string.\<close>

definition quoted :: "string \<Rightarrow> string" where
  "quoted s = CHR 0x22 # s @ [CHR 0x22]"

text \<open>\<open>fmt.Sprintf("%d", i)\<close>: the decimal digits of an integer.\<close>

definition digit_char :: "nat \<Rightarrow> char" where
  "digit_char n = ''0123456789'' ! n"

function decimal :: "nat \<Rightarrow> string" where
  "decimal n = (if n < 10 then [digit_char n] else decimal (n div 10) @ [digit_char (n mod 10)])"
  by pat_completeness auto
termination
  by (relation "measure id") auto

declare decimal.simps [simp del]

definition Sprintf_d :: "int \<Rightarrow> string" where
  "Sprintf_d i = (if i < 0 then CHR ''-'' # decimal (nat (- i)) else decimal (nat i))"

text \<open>\<open>strings.Join\<close> and \<open>strings.TrimSuffix\<close>.\<close>

fun Join :: "string list \<Rightarrow> string \<Rightarrow> string" where
  "Join [] sep = []"
| "Join [x] sep = x"
| "Join (x # y # ys) sep = x @ sep @ Join (y # ys) sep"

definition HasSuffix :: "string \<Rightarrow> string \<Rightarrow> bool" where
  "HasSuffix s suffix =
     (length suffix \<le> length s \<and> drop (length s - length suffix) s = suffix)"

definition TrimSuffix :: "string \<Rightarrow> string \<Rightarrow> string" where
  "TrimSuffix s suffix =
     (if HasSuffix s suffix then take (length s - length suffix) s else s)"

section \<open>Errors and panics\<close>

text \<open>
  A Go error value is a message, possibly wrapped by \<open>errors.Wrap\<close>. A function that
  can panic on a nil pointer has an outcome: it returns, or it panics.
\<close>

datatype error = Error string | Wrap error string

datatype 'a outcome = Returns 'a | Panics

section \<open>The Graph and its surroundings\<close>

record language =
  Name :: string
  Version :: "string option"

text \<open>
  The fields of \<open>Graph\<close> that system.go reads. \<open>Image\<close> is renamed \<open>Image_opt\<close>.
  Pointer fields (\<open>*string\<close>) are options, \<open>None\<close> for nil.
\<close>

record graph =
  OS :: string
  Language :: language
  Image_opt :: "string option"
  CUDA :: "string option"
  CUDNN :: "string option"
  UbuntuAPTSource :: "string option"
  SystemPackages :: "string list"
  Exec :: "string list"
  PublicKeyPath :: string
  uid :: int
  gid :: int

text \<open>
  What system.go reads from outside the Graph: the registry organisation of the
  configuration (\<open>viper.GetString(flag.FlagDockerOrganization)\<close>), the version tag
  (\<open>version.GetGitTagFromVersion()\<close>), the constant \<open>config.ContainerAuthorizedKeysPath\<close>,
  the global \<open>DefaultGraph\<close> and the local file system as \<open>os.ReadFile\<close> sees it.
\<close>

record world =
  DockerOrganization :: string
  GitTag :: string
  ContainerAuthorizedKeysPath :: string
  DefaultGraph :: graph
  ReadFile :: "string \<Rightarrow> error + string"

section \<open>compileRun\<close>

definition bash_c :: "string \<Rightarrow> string" where
  "bash_c c = ''bash -c '' @ quoted c"

definition PATH_value :: string where
  "PATH_value = ''$PATH:/usr/local/sbin:/usr/local/bin:/usr/sbin:/usr/bin:/sbin:/bin:/opt/conda/bin:/usr/local/julia/bin:/opt/conda/envs/envd/bin''"

text \<open>The loop \<open>for _, c := range g.Exec[1:]\<close>.\<close>

fun compileRun_loop :: "exec_state \<Rightarrow> string list \<Rightarrow> exec_state" where
  "compileRun_loop run [] = run"
| "compileRun_loop run (c # cs) = compileRun_loop (exec_Run run (bash_c c) None) cs"

definition compileRun :: "graph \<Rightarrow> state \<Rightarrow> state" where
  "compileRun g root =
     (case Exec g of
        [] \<Rightarrow> root
      | c0 # rest \<Rightarrow>
          (let root1 = AddEnv root ''PATH'' PATH_value in
           if length (Exec g) = 1 then llb_Root (llb_Run root1 (bash_c c0) None)
           else llb_Root (compileRun_loop (llb_Run root1 (bash_c c0) None) rest)))"

section \<open>compileSystemPackages\<close>

text \<open>The loop that appends \<open>" " + pkg\<close> to the string builder.\<close>

fun write_packages :: "string \<Rightarrow> string list \<Rightarrow> string" where
  "write_packages sb [] = sb"
| "write_packages sb (pkg # pkgs) = write_packages (sb @ '' '' @ pkg) pkgs"

definition cacheDir :: string where
  "cacheDir = ''/var/cache/apt''"

definition cacheLibDir :: string where
  "cacheLibDir = ''/var/lib/apt''"

text \<open>
  The method \<open>Graph.CacheID\<close> is declared in another file; \<open>compileSystemPackages\<close>
  takes it as the parameter \<open>cid\<close>.
\<close>

definition compileSystemPackages ::
  "(graph \<Rightarrow> string \<Rightarrow> string) \<Rightarrow> graph \<Rightarrow> state \<Rightarrow> state" where
  "compileSystemPackages cid g root =
     (if length (SystemPackages g) = 0 then root
      else
        let sb = write_packages
                   ''sudo apt-get update && sudo apt-get install -y --no-install-recommends''
                   (SystemPackages g);
            run = llb_Run root (bash_c sb)
                    (Some (''apt-get install '' @ Join (SystemPackages g) '' ''));
            run1 = AddMount run cacheDir Scratch
                     (AsPersistentCacheDir (cid g cacheDir) CacheMountShared);
            run2 = AddMount run1 cacheLibDir Scratch
                     (AsPersistentCacheDir (cid g cacheLibDir) CacheMountShared)
        in llb_Root run2)"

section \<open>compileCUDAPackages and compileBase\<close>

text \<open>
  \<open>compileCUDAPackages\<close> dereferences \<open>g.CUDA\<close> and then \<open>g.CUDNN\<close>; a nil pointer
  panics.
\<close>

definition compileCUDAPackages :: "world \<Rightarrow> graph \<Rightarrow> state outcome" where
  "compileCUDAPackages w g =
     (case CUDA g of
        None \<Rightarrow> Panics
      | Some cuda \<Rightarrow>
          (case CUDNN g of
             None \<Rightarrow> Panics
           | Some cudnn \<Rightarrow>
               Returns (llb_Image (''docker.io/'' @ DockerOrganization w @ ''/python:3.9-'' @ OS g
                          @ ''-cuda'' @ cuda @ ''-cudnn'' @ cudnn @ ''-envd-'' @ GitTag w))))"

text \<open>The two provisioning chains of \<open>compileBase\<close>, for \<open>g.uid == 0\<close> and for the rest.\<close>

definition root_context :: "state \<Rightarrow> exec_state" where
  "root_context condaStage =
     exec_Run (exec_Run (exec_Run (exec_Run (exec_Run (exec_Run
       (llb_Run condaStage (''groupadd -g '' @ Sprintf_d 1001 @ '' envd'')
          (Some ''[internal] still create group envd for root context''))
       (''useradd -p '' @ quoted [] @ '' -u '' @ Sprintf_d 1001 @ '' -g envd -s /bin/sh -m envd'')
          (Some ''[internal] still create user envd for root context''))
       ''usermod -s /bin/sh root''
          (Some ''[internal] set root default shell to /bin/sh''))
       (''sed -i '' @ quoted ''s/envd:x:1001:1001/envd:x:0:0/g'' @ '' /etc/passwd'')
          (Some ''[internal] set envd uid to 0 as root''))
       (''sed -i '' @ quoted ''s./root./home/envd.g'' @ '' /etc/passwd'')
          (Some ''[internal] set root home dir to /home/envd''))
       (''sed -i '' @ quoted ''s/envd:x:1001/envd:x:0/g'' @ '' /etc/group'')
          (Some ''[internal] set envd group to 0 as root group''))
       ''chown -R root:root /opt/conda''
          (Some ''[internal] configure user permissions'')"

definition user_context :: "graph \<Rightarrow> state \<Rightarrow> exec_state" where
  "user_context g condaStage =
     exec_Run (exec_Run (exec_Run (exec_Run
       (llb_Run condaStage (''groupadd -g '' @ Sprintf_d (gid g) @ '' envd'')
          (Some ''[internal] create user group envd''))
       (''useradd -p '' @ quoted [] @ '' -u '' @ Sprintf_d (uid g) @ '' -g envd -s /bin/sh -m envd'')
          (Some ''[internal] create user envd''))
       ''adduser envd sudo''
          (Some ''[internal] add user envd to sudoers''))
       ''chown -R envd:envd /usr/local/lib''
          (Some ''[internal] configure user permissions''))
       ''chown -R envd:envd /opt/conda''
          (Some ''[internal] configure user permissions'')"

text \<open>
  The \<open>if\<close>/\<open>else if\<close>/\<open>else\<close> that chooses the base image when no custom image is
  set. The receiver is a pointer, so the changed \<open>uid\<close> and \<open>gid\<close> are returned with the
  choice. The \<open>switch\<close> has no default: another language name leaves \<open>base\<close> at its zero
  value.
\<close>

definition select_base :: "world \<Rightarrow> graph \<Rightarrow> graph \<times> state outcome" where
  "select_base w g =
     (if CUDA g = None \<and> CUDNN g = None then
        (if Name (Language g) = ''r'' then
           (let g1 = (if gid g = 1000 then g\<lparr>gid := 1001\<rparr> else g);
                g2 = (if uid g1 = 1000 then g1\<lparr>uid := 1001\<rparr> else g1)
            in (g2, Returns (llb_Image (''docker.io/'' @ DockerOrganization w
                               @ ''/r-base:4.2-envd-'' @ GitTag w))))
         else if Name (Language g) = ''python'' then
           (g, Returns (llb_Image (''docker.io/'' @ DockerOrganization w
                          @ ''/python:3.9-ubuntu20.04-envd-'' @ GitTag w)))
         else if Name (Language g) = ''julia'' then
           (g, Returns (llb_Image (''docker.io/'' @ DockerOrganization w
                          @ ''/julia:1.8rc1-ubuntu20.04-envd-'' @ GitTag w)))
         else (g, Returns []))
      else (g, compileCUDAPackages w g))"

text \<open>
  \<open>compileBase\<close>. The method \<open>installConda\<close> is declared in another file and is the
  parameter \<open>installConda\<close>. The result is the Graph after the call and the outcome: a
  panic, or the pair \<open>(llb.State, error)\<close> as a sum.
\<close>

definition compileBase ::
  "(graph \<Rightarrow> state \<Rightarrow> error + state) \<Rightarrow> world \<Rightarrow> graph \<Rightarrow> graph \<times> (error + state) outcome" where
  "compileBase installConda w g =
     (case Image_opt g of
        Some img \<Rightarrow> (g, Returns (Inr (llb_Image img)))
      | None \<Rightarrow>
          (case select_base w g of
             (g', Panics) \<Rightarrow> (g', Panics)
           | (g', Returns base) \<Rightarrow>
               (case installConda g' base of
                  Inl err \<Rightarrow> (g', Returns (Inl (Wrap err ''failed to install conda'')))
                | Inr condaStage \<Rightarrow>
                    (let res = (if uid g' = 0 then root_context condaStage
                                else user_context g' condaStage)
                     in (g', Returns (Inr (llb_User ''envd'' (llb_Root res))))))))"

section \<open>copySSHKey\<close>

text \<open>The file is the one named by the global \<open>DefaultGraph\<close>; modes 0755 and 0644.\<close>

definition copySSHKey :: "world \<Rightarrow> graph \<Rightarrow> state \<Rightarrow> error + state" where
  "copySSHKey w g root =
     (let public = PublicKeyPath (DefaultGraph w) in
      case ReadFile w public of
        Inl err \<Rightarrow> Inl (Wrap err ''Cannot read public SSH key'')
      | Inr bdat \<Rightarrow>
          (let dat = TrimSuffix bdat [CHR 0x0A];
               run = llb_File
                       (llb_File root (Mkdir ''/var/envd'' 493 True (uid g, gid g)) None)
                       (Mkfile (ContainerAuthorizedKeysPath w) 420 (dat @ '' envd'') (uid g, gid g))
                       (Some ''install ssh keys'')
           in Inr run))"

section \<open>CacheID\<close>

text \<open>
  Modelled from the spec: the method \<open>Graph.CacheID\<close>, which system.go calls and does not
  declare. The spec says that cache identifiers "are a pure function of (directory path,
  environment identity)" and are "derived deterministically from each directory's path
  so concurrent or repeated builds share the same cache without collision across
  unrelated directories". The model joins the directory path and the environment
  identity with a slash; the identity of a Graph is given by the parameter \<open>identity\<close>.
\<close>

definition CacheID :: "(graph \<Rightarrow> string) \<Rightarrow> graph \<Rightarrow> string \<Rightarrow> string" where
  "CacheID identity g dir = dir @ ''/'' @ identity g"

text \<open>Reading the cache identifiers off a plan, in the order of the steps and their mounts.\<close>

fun mount_cache_id :: "mount \<Rightarrow> string" where
  "mount_cache_id (Mount target src (AsPersistentCacheDir i sharing)) = i"

fun step_cache_ids :: "step \<Rightarrow> string list" where
  "step_cache_ids (RunOp c n ms) = map mount_cache_id ms"
| "step_cache_ids (ImageOp ref) = []"
| "step_cache_ids (EnvOp k v) = []"
| "step_cache_ids (FileOp a n) = []"
| "step_cache_ids (UserOp u) = []"

definition cache_ids :: "state \<Rightarrow> string list" where
  "cache_ids s = concat (map step_cache_ids s)"

section \<open>Example inputs\<close>

text \<open>The zero value of \<open>Graph\<close>, from which the examples set the fields they need.\<close>

definition zero_graph :: graph where
  "zero_graph =
     \<lparr>OS = [], Language = \<lparr>Name = [], Version = None\<rparr>, Image_opt = None, CUDA = None,
      CUDNN = None, UbuntuAPTSource = None, SystemPackages = [], Exec = [],
      PublicKeyPath = [], uid = 0, gid = 0\<rparr>"

text \<open>A file system with one readable file, the public key.\<close>

definition example_files :: "string \<Rightarrow> error + string" where
  "example_files p =
     (if p = ''/home/dev/.ssh/id.pub'' then Inr (''ssh-ed25519 AAAA...'' @ [CHR 0x0A])
      else Inl (Error ''no such file or directory''))"

definition example_world :: world where
  "example_world =
     \<lparr>DockerOrganization = ''tensorchord'', GitTag = ''v0.1.0'',
      ContainerAuthorizedKeysPath = ''/var/envd/authorized_keys'',
      DefaultGraph = zero_graph\<lparr>PublicKeyPath := ''/home/dev/.ssh/id.pub''\<rparr>,
      ReadFile = example_files\<rparr>"

text \<open>A conda installation that succeeds and adds one step, and one that fails.\<close>

definition conda_ok :: "graph \<Rightarrow> state \<Rightarrow> error + state" where
  "conda_ok g root = Inr (root @ [EnvOp ''CONDA_VERSION'' ''py39_4.11.0''])"

definition conda_fails :: "graph \<Rightarrow> state \<Rightarrow> error + state" where
  "conda_fails g root = Inl (Error ''conda'')"

definition example_identity :: "graph \<Rightarrow> string" where
  "example_identity g = ''demo''"

section \<open>Facts about the library functions and the chains\<close>

lemma Sprintf_d_1001: "Sprintf_d 1001 = ''1001''"
  by (simp add: Sprintf_d_def decimal.simps digit_char_def)

lemma Sprintf_d_1000: "Sprintf_d 1000 = ''1000''"
  by (simp add: Sprintf_d_def decimal.simps digit_char_def)

lemma llb_Root_loop:
  "llb_Root (compileRun_loop (ExecState s c n ms) cs) =
     s @ RunOp c n ms # map (\<lambda>c. RunOp (bash_c c) None []) cs"
  by (induction cs arbitrary: s c n ms) (simp_all add: exec_Run_def llb_Run_def)

lemma write_packages_concat:
  "write_packages sb pkgs = sb @ concat (map (\<lambda>p. '' '' @ p) pkgs)"
  by (induction pkgs arbitrary: sb) simp_all

lemma TrimSuffix_single:
  "TrimSuffix s [c] = (if s \<noteq> [] \<and> last s = c then butlast s else s)"
proof (cases s rule: rev_cases)
  case Nil
  then show ?thesis by (simp add: TrimSuffix_def HasSuffix_def)
next
  case (snoc ys y)
  then show ?thesis by (simp add: TrimSuffix_def HasSuffix_def)
qed

lemma root_context_plan:
  "llb_Root (root_context condaStage) = condaStage @
     [RunOp ''groupadd -g 1001 envd'' (Some ''[internal] still create group envd for root context'') [],
      RunOp (''useradd -p '' @ quoted [] @ '' -u 1001 -g envd -s /bin/sh -m envd'')
        (Some ''[internal] still create user envd for root context'') [],
      RunOp ''usermod -s /bin/sh root'' (Some ''[internal] set root default shell to /bin/sh'') [],
      RunOp (''sed -i '' @ quoted ''s/envd:x:1001:1001/envd:x:0:0/g'' @ '' /etc/passwd'')
        (Some ''[internal] set envd uid to 0 as root'') [],
      RunOp (''sed -i '' @ quoted ''s./root./home/envd.g'' @ '' /etc/passwd'')
        (Some ''[internal] set root home dir to /home/envd'') [],
      RunOp (''sed -i '' @ quoted ''s/envd:x:1001/envd:x:0/g'' @ '' /etc/group'')
        (Some ''[internal] set envd group to 0 as root group'') [],
      RunOp ''chown -R root:root /opt/conda'' (Some ''[internal] configure user permissions'') []]"
  by (simp add: root_context_def exec_Run_def llb_Run_def Sprintf_d_1001)

lemma user_context_plan:
  "llb_Root (user_context g condaStage) = condaStage @
     [RunOp (''groupadd -g '' @ Sprintf_d (gid g) @ '' envd'') (Some ''[internal] create user group envd'') [],
      RunOp (''useradd -p '' @ quoted [] @ '' -u '' @ Sprintf_d (uid g) @ '' -g envd -s /bin/sh -m envd'')
        (Some ''[internal] create user envd'') [],
      RunOp ''adduser envd sudo'' (Some ''[internal] add user envd to sudoers'') [],
      RunOp ''chown -R envd:envd /usr/local/lib'' (Some ''[internal] configure user permissions'') [],
      RunOp ''chown -R envd:envd /opt/conda'' (Some ''[internal] configure user permissions'') []]"
  by (simp add: user_context_def exec_Run_def llb_Run_def)

lemma select_base_no_panic:
  "(CUDA g = None) = (CUDNN g = None) \<Longrightarrow> \<exists>g' base. select_base w g = (g', Returns base)"
  by (cases "CUDA g"; cases "CUDNN g")
     (simp_all add: select_base_def compileCUDAPackages_def Let_def)

lemma select_base_uid:
  "select_base w g = (g', r) \<Longrightarrow> uid g \<noteq> 1000 \<Longrightarrow> uid g' = uid g"
  by (auto simp: select_base_def Let_def split: if_splits)

lemma cache_ids_compileSystemPackages:
  "SystemPackages g \<noteq> [] \<Longrightarrow>
   cache_ids (compileSystemPackages cid g root) =
     cache_ids root @ [cid g ''/var/cache/apt'', cid g ''/var/lib/apt'']"
  by (simp add: compileSystemPackages_def llb_Run_def cacheDir_def cacheLibDir_def
      cache_ids_def)

lemma copySSHKey_fails_iff:
  "(\<exists>e. copySSHKey w g root = Inl e) =
     (\<exists>e. ReadFile w (PublicKeyPath (DefaultGraph w)) = Inl e)"
  by (cases "ReadFile w (PublicKeyPath (DefaultGraph w))") (simp_all add: copySSHKey_def)

section \<open>Base compilation\<close>

text \<open>
  C1. For every Graph with \<open>uid = 0\<close> and no custom image (the accelerator fields both
  set or both nil), \<open>compileBase\<close> does not panic; it fails exactly when the conda
  installation fails, and otherwise its plan is the conda stage followed by the root
  context commands in this order: create group envd with gid 1001, create user envd with
  uid 1001, set root's shell to /bin/sh, replace \<open>envd:x:1001:1001\<close> by \<open>envd:x:0:0\<close> in
  /etc/passwd, replace \<open>/root\<close> by \<open>/home/envd\<close> in /etc/passwd, replace \<open>envd:x:1001\<close>
  by \<open>envd:x:0\<close> in /etc/group, chown -R root:root /opt/conda; then the user envd is set.
  The substitutions write 0 for the uid and for the gid of the envd account.
\<close>

theorem compileBase_root_remap:
  assumes "Image_opt g = None" and "uid g = 0" and "(CUDA g = None) = (CUDNN g = None)"
  shows "\<exists>g' base. select_base w g = (g', Returns base) \<and> uid g' = 0 \<and>
     compileBase installConda w g =
       (g', Returns (case installConda g' base of
          Inl err \<Rightarrow> Inl (Wrap err ''failed to install conda'')
        | Inr condaStage \<Rightarrow> Inr (condaStage @
           [RunOp ''groupadd -g 1001 envd''
              (Some ''[internal] still create group envd for root context'') [],
            RunOp (''useradd -p '' @ quoted [] @ '' -u 1001 -g envd -s /bin/sh -m envd'')
              (Some ''[internal] still create user envd for root context'') [],
            RunOp ''usermod -s /bin/sh root''
              (Some ''[internal] set root default shell to /bin/sh'') [],
            RunOp (''sed -i '' @ quoted ''s/envd:x:1001:1001/envd:x:0:0/g'' @ '' /etc/passwd'')
              (Some ''[internal] set envd uid to 0 as root'') [],
            RunOp (''sed -i '' @ quoted ''s./root./home/envd.g'' @ '' /etc/passwd'')
              (Some ''[internal] set root home dir to /home/envd'') [],
            RunOp (''sed -i '' @ quoted ''s/envd:x:1001/envd:x:0/g'' @ '' /etc/group'')
              (Some ''[internal] set envd group to 0 as root group'') [],
            RunOp ''chown -R root:root /opt/conda''
              (Some ''[internal] configure user permissions'') [],
            UserOp ''envd''])))"
proof -
  from select_base_no_panic [OF assms(3), of w]
  obtain g' base where sb: "select_base w g = (g', Returns base)"
    by auto
  with assms(2) have u: "uid g' = 0"
    using select_base_uid [OF sb] by simp
  show ?thesis
    using assms(1) sb u
    by (simp add: compileBase_def llb_User_def root_context_plan split: sum.splits)
qed

theorem compileBase_root_remap_witness:
  "compileBase conda_ok example_world (zero_graph\<lparr>Language := \<lparr>Name = ''python'', Version = None\<rparr>\<rparr>) =
     (zero_graph\<lparr>Language := \<lparr>Name = ''python'', Version = None\<rparr>\<rparr>,
      Returns (Inr
        [ImageOp ''docker.io/tensorchord/python:3.9-ubuntu20.04-envd-v0.1.0'',
         EnvOp ''CONDA_VERSION'' ''py39_4.11.0'',
         RunOp ''groupadd -g 1001 envd''
           (Some ''[internal] still create group envd for root context'') [],
         RunOp (''useradd -p '' @ quoted [] @ '' -u 1001 -g envd -s /bin/sh -m envd'')
           (Some ''[internal] still create user envd for root context'') [],
         RunOp ''usermod -s /bin/sh root''
           (Some ''[internal] set root default shell to /bin/sh'') [],
         RunOp (''sed -i '' @ quoted ''s/envd:x:1001:1001/envd:x:0:0/g'' @ '' /etc/passwd'')
           (Some ''[internal] set envd uid to 0 as root'') [],
         RunOp (''sed -i '' @ quoted ''s./root./home/envd.g'' @ '' /etc/passwd'')
           (Some ''[internal] set root home dir to /home/envd'') [],
         RunOp (''sed -i '' @ quoted ''s/envd:x:1001/envd:x:0/g'' @ '' /etc/group'')
           (Some ''[internal] set envd group to 0 as root group'') [],
         RunOp ''chown -R root:root /opt/conda''
           (Some ''[internal] configure user permissions'') [],
         UserOp ''envd'']))"
  using compileBase_root_remap [of "zero_graph\<lparr>Language := \<lparr>Name = ''python'', Version = None\<rparr>\<rparr>"
      example_world conda_ok]
  by (simp add: zero_graph_def example_world_def conda_ok_def select_base_def llb_Image_def)

text \<open>
  C2. For every Graph whose custom image is set, \<open>compileBase\<close> returns that image alone:
  the plan has no group, user, substitution or ownership command, the conda installation
  is not called, and the Graph (so \<open>uid\<close> and \<open>gid\<close>) is returned unchanged.
\<close>

theorem compileBase_custom_image:
  assumes "Image_opt g = Some img"
  shows "compileBase installConda w g = (g, Returns (Inr [ImageOp img]))"
  using assms by (simp add: compileBase_def llb_Image_def)

theorem compileBase_custom_image_witness:
  "compileBase conda_ok example_world
     (zero_graph\<lparr>Language := \<lparr>Name = ''r'', Version = None\<rparr>, Image_opt := Some ''ubuntu:20.04'',
        uid := 1000, gid := 1000\<rparr>) =
   (zero_graph\<lparr>Language := \<lparr>Name = ''r'', Version = None\<rparr>, Image_opt := Some ''ubuntu:20.04'',
        uid := 1000, gid := 1000\<rparr>,
    Returns (Inr [ImageOp ''ubuntu:20.04'']))"
  using compileBase_custom_image [of "zero_graph\<lparr>Language := \<lparr>Name = ''r'', Version = None\<rparr>,
        Image_opt := Some ''ubuntu:20.04'', uid := 1000, gid := 1000\<rparr>" "''ubuntu:20.04''"
        conda_ok example_world]
  by (simp add: zero_graph_def)

text \<open>
  C3, as stated, fails: with no custom image, no accelerator and the language name
  \<open>go\<close>, \<open>compileBase\<close> returns a plan (the user provisioning on an empty base) and no
  error.
\<close>

theorem compileBase_unknown_language_counterexample:
  "compileBase conda_ok example_world
     (zero_graph\<lparr>Language := \<lparr>Name = ''go'', Version = None\<rparr>, uid := 1000, gid := 1000\<rparr>) =
   (zero_graph\<lparr>Language := \<lparr>Name = ''go'', Version = None\<rparr>, uid := 1000, gid := 1000\<rparr>,
    Returns (Inr
      [EnvOp ''CONDA_VERSION'' ''py39_4.11.0'',
       RunOp ''groupadd -g 1000 envd'' (Some ''[internal] create user group envd'') [],
       RunOp (''useradd -p '' @ quoted [] @ '' -u 1000 -g envd -s /bin/sh -m envd'')
         (Some ''[internal] create user envd'') [],
       RunOp ''adduser envd sudo'' (Some ''[internal] add user envd to sudoers'') [],
       RunOp ''chown -R envd:envd /usr/local/lib'' (Some ''[internal] configure user permissions'') [],
       RunOp ''chown -R envd:envd /opt/conda'' (Some ''[internal] configure user permissions'') [],
       UserOp ''envd'']))"
  by (simp add: compileBase_def select_base_def zero_graph_def conda_ok_def llb_User_def
      user_context_plan Sprintf_d_1000)

text \<open>
  C3, amended. For every Graph with no custom image, both accelerator fields nil and a
  language name other than r, python and julia, \<open>compileBase\<close> raises no error of its
  own: it selects no image, hands the empty (zero value) state to the conda installation,
  fails only when that fails (with its error wrapped as "failed to install conda"), and
  otherwise returns the user provisioning on the conda stage.
\<close>

theorem compileBase_unknown_language:
  assumes "Image_opt g = None" and "CUDA g = None" and "CUDNN g = None"
    and "Name (Language g) \<noteq> ''r''" and "Name (Language g) \<noteq> ''python''"
    and "Name (Language g) \<noteq> ''julia''"
  shows "compileBase installConda w g =
     (g, Returns (case installConda g [] of
        Inl err \<Rightarrow> Inl (Wrap err ''failed to install conda'')
      | Inr condaStage \<Rightarrow>
          Inr (llb_Root (if uid g = 0 then root_context condaStage
                         else user_context g condaStage) @ [UserOp ''envd''])))"
  using assms
  by (simp add: compileBase_def select_base_def llb_User_def split: sum.splits)

theorem compileBase_unknown_language_witness:
  "compileBase conda_fails example_world (zero_graph\<lparr>Language := \<lparr>Name = ''go'', Version = None\<rparr>\<rparr>) =
     (zero_graph\<lparr>Language := \<lparr>Name = ''go'', Version = None\<rparr>\<rparr>,
      Returns (Inl (Wrap (Error ''conda'') ''failed to install conda'')))"
  using compileBase_unknown_language [of "zero_graph\<lparr>Language := \<lparr>Name = ''go'', Version = None\<rparr>\<rparr>"
      conda_fails example_world]
  by (simp add: zero_graph_def conda_fails_def)

text \<open>
  C4. For the r base image (language r, no custom image, no accelerator) with
  \<open>uid = gid = 1000\<close>, both are set to 1001 before the conda installation and the
  provisioning, and the emitted groupadd and useradd commands carry 1001. Whenever
  \<open>compileBase\<close> changes \<open>uid\<close> or \<open>gid\<close> of any Graph \<open>h\<close>, that Graph is in the r base
  image case.
\<close>

theorem compileBase_r_base_ids:
  assumes "Image_opt g = None" and "CUDA g = None" and "CUDNN g = None"
    and "Name (Language g) = ''r''" and "uid g = 1000" and "gid g = 1000"
  shows "compileBase installConda w g =
     (g\<lparr>gid := 1001, uid := 1001\<rparr>,
      Returns (case installConda (g\<lparr>gid := 1001, uid := 1001\<rparr>)
                      [ImageOp (''docker.io/'' @ DockerOrganization w @ ''/r-base:4.2-envd-'' @ GitTag w)] of
        Inl err \<Rightarrow> Inl (Wrap err ''failed to install conda'')
      | Inr condaStage \<Rightarrow> Inr (condaStage @
         [RunOp ''groupadd -g 1001 envd'' (Some ''[internal] create user group envd'') [],
          RunOp (''useradd -p '' @ quoted [] @ '' -u 1001 -g envd -s /bin/sh -m envd'')
            (Some ''[internal] create user envd'') [],
          RunOp ''adduser envd sudo'' (Some ''[internal] add user envd to sudoers'') [],
          RunOp ''chown -R envd:envd /usr/local/lib'' (Some ''[internal] configure user permissions'') [],
          RunOp ''chown -R envd:envd /opt/conda'' (Some ''[internal] configure user permissions'') [],
          UserOp ''envd''])))
   \<and> (uid (fst (compileBase installConda w h)) \<noteq> uid h \<or> gid (fst (compileBase installConda w h)) \<noteq> gid h
        \<longrightarrow> Name (Language h) = ''r'' \<and> Image_opt h = None \<and> CUDA h = None \<and> CUDNN h = None)"
proof
  show "compileBase installConda w g =
     (g\<lparr>gid := 1001, uid := 1001\<rparr>,
      Returns (case installConda (g\<lparr>gid := 1001, uid := 1001\<rparr>)
                      [ImageOp (''docker.io/'' @ DockerOrganization w @ ''/r-base:4.2-envd-'' @ GitTag w)] of
        Inl err \<Rightarrow> Inl (Wrap err ''failed to install conda'')
      | Inr condaStage \<Rightarrow> Inr (condaStage @
         [RunOp ''groupadd -g 1001 envd'' (Some ''[internal] create user group envd'') [],
          RunOp (''useradd -p '' @ quoted [] @ '' -u 1001 -g envd -s /bin/sh -m envd'')
            (Some ''[internal] create user envd'') [],
          RunOp ''adduser envd sudo'' (Some ''[internal] add user envd to sudoers'') [],
          RunOp ''chown -R envd:envd /usr/local/lib'' (Some ''[internal] configure user permissions'') [],
          RunOp ''chown -R envd:envd /opt/conda'' (Some ''[internal] configure user permissions'') [],
          UserOp ''envd''])))"
    using assms
    by (simp add: compileBase_def select_base_def llb_User_def llb_Image_def user_context_plan
        Sprintf_d_1001 split: sum.splits)
next
  have fst_eq: "fst (compileBase installConda w h) = fst (select_base w h)" if "Image_opt h = None"
    using that by (simp add: compileBase_def split: prod.splits outcome.splits sum.splits)
  show "uid (fst (compileBase installConda w h)) \<noteq> uid h \<or> gid (fst (compileBase installConda w h)) \<noteq> gid h
        \<longrightarrow> Name (Language h) = ''r'' \<and> Image_opt h = None \<and> CUDA h = None \<and> CUDNN h = None"
  proof (cases "Image_opt h")
    case None
    then show ?thesis
      by (auto simp: fst_eq select_base_def split: if_splits)
  next
    case (Some img)
    then show ?thesis by (simp add: compileBase_def)
  qed
qed

theorem compileBase_r_base_ids_witness:
  "compileBase conda_ok example_world
     (zero_graph\<lparr>Language := \<lparr>Name = ''r'', Version = None\<rparr>, uid := 1000, gid := 1000\<rparr>) =
   (zero_graph\<lparr>Language := \<lparr>Name = ''r'', Version = None\<rparr>, uid := 1001, gid := 1001\<rparr>,
    Returns (Inr
      [ImageOp ''docker.io/tensorchord/r-base:4.2-envd-v0.1.0'',
       EnvOp ''CONDA_VERSION'' ''py39_4.11.0'',
       RunOp ''groupadd -g 1001 envd'' (Some ''[internal] create user group envd'') [],
       RunOp (''useradd -p '' @ quoted [] @ '' -u 1001 -g envd -s /bin/sh -m envd'')
         (Some ''[internal] create user envd'') [],
       RunOp ''adduser envd sudo'' (Some ''[internal] add user envd to sudoers'') [],
       RunOp ''chown -R envd:envd /usr/local/lib'' (Some ''[internal] configure user permissions'') [],
       RunOp ''chown -R envd:envd /opt/conda'' (Some ''[internal] configure user permissions'') [],
       UserOp ''envd'']))"
  using compileBase_r_base_ids [of "zero_graph\<lparr>Language := \<lparr>Name = ''r'', Version = None\<rparr>,
      uid := 1000, gid := 1000\<rparr>" conda_ok example_world zero_graph]
  by (simp add: zero_graph_def example_world_def conda_ok_def)

section \<open>Shell commands\<close>

text \<open>
  C5. \<open>compileRun\<close> adds nothing when \<open>Exec\<close> is empty. Otherwise it adds the PATH
  environment step with the fixed string and then one shell run step per entry of \<open>Exec\<close>
  (\<open>bash -c "entry"\<close>), in the order of \<open>Exec\<close>, each on the state of the one before. So the
  PATH step and the run steps are added if and only if \<open>Exec\<close> is not empty.
\<close>

theorem compileRun_steps:
  "compileRun g root =
     (if Exec g = [] then root
      else root @
        EnvOp ''PATH'' ''$PATH:/usr/local/sbin:/usr/local/bin:/usr/sbin:/usr/bin:/sbin:/bin:/opt/conda/bin:/usr/local/julia/bin:/opt/conda/envs/envd/bin''
        # map (\<lambda>c. RunOp (''bash -c '' @ quoted c) None []) (Exec g))"
  by (cases "Exec g")
     (simp_all add: compileRun_def AddEnv_def llb_Run_def llb_Root_loop Let_def PATH_value_def
        bash_c_def)

theorem compileRun_steps_witness:
  "compileRun (zero_graph\<lparr>Exec := [''make'', ''ls -l'', ''make'']\<rparr>) [ImageOp ''base''] =
     [ImageOp ''base'',
      EnvOp ''PATH'' ''$PATH:/usr/local/sbin:/usr/local/bin:/usr/sbin:/usr/bin:/sbin:/bin:/opt/conda/bin:/usr/local/julia/bin:/opt/conda/envs/envd/bin'',
      RunOp (''bash -c '' @ quoted ''make'') None [],
      RunOp (''bash -c '' @ quoted ''ls -l'') None [],
      RunOp (''bash -c '' @ quoted ''make'') None []]
   \<and> compileRun zero_graph [ImageOp ''base''] = [ImageOp ''base'']"
  using compileRun_steps [of "zero_graph\<lparr>Exec := [''make'', ''ls -l'', ''make'']\<rparr>" "[ImageOp ''base'']"]
    compileRun_steps [of zero_graph "[ImageOp ''base'']"]
  by (simp add: zero_graph_def)

section \<open>System packages\<close>

text \<open>
  C6. \<open>compileSystemPackages\<close> returns the state unchanged when \<open>SystemPackages\<close> is empty.
  Otherwise it adds exactly one shell run step: the command updates the package index and
  installs, with \<open>-y --no-install-recommends\<close>, every package in input order, and the step
  has exactly two mounts, persistent shared cache directories at /var/cache/apt and
  /var/lib/apt, whatever \<open>CacheID\<close> is.
\<close>

theorem compileSystemPackages_step:
  "compileSystemPackages cid g root =
     (if SystemPackages g = [] then root
      else root @
        [RunOp (''bash -c '' @ quoted (''sudo apt-get update && sudo apt-get install -y --no-install-recommends''
                   @ concat (map (\<lambda>pkg. '' '' @ pkg) (SystemPackages g))))
           (Some (''apt-get install '' @ Join (SystemPackages g) '' ''))
           [Mount ''/var/cache/apt'' Scratch (AsPersistentCacheDir (cid g ''/var/cache/apt'') CacheMountShared),
            Mount ''/var/lib/apt'' Scratch (AsPersistentCacheDir (cid g ''/var/lib/apt'') CacheMountShared)]])"
  by (simp add: compileSystemPackages_def write_packages_concat llb_Run_def bash_c_def
      cacheDir_def cacheLibDir_def)

theorem compileSystemPackages_step_witness:
  "compileSystemPackages (\<lambda>g dir. ''id-'' @ dir) (zero_graph\<lparr>SystemPackages := [''vim'', ''git'']\<rparr>)
       [ImageOp ''base''] =
     [ImageOp ''base'',
      RunOp (''bash -c '' @ quoted ''sudo apt-get update && sudo apt-get install -y --no-install-recommends vim git'')
        (Some ''apt-get install vim git'')
        [Mount ''/var/cache/apt'' Scratch (AsPersistentCacheDir ''id-/var/cache/apt'' CacheMountShared),
         Mount ''/var/lib/apt'' Scratch (AsPersistentCacheDir ''id-/var/lib/apt'' CacheMountShared)]]
   \<and> compileSystemPackages (\<lambda>g dir. ''id-'' @ dir) zero_graph [ImageOp ''base''] = [ImageOp ''base'']"
  using compileSystemPackages_step [of "\<lambda>g dir. ''id-'' @ dir"
      "zero_graph\<lparr>SystemPackages := [''vim'', ''git'']\<rparr>" "[ImageOp ''base'']"]
    compileSystemPackages_step [of "\<lambda>g dir. ''id-'' @ dir" zero_graph "[ImageOp ''base'']"]
  by (simp add: zero_graph_def)

text \<open>
  C7. With the cache identifier of the spec, the two mounts of the package step carry the
  identifiers of /var/cache/apt and /var/lib/apt for the environment identity of the
  Graph: two compilations of Graphs with the same identity, from any states, give the
  same two identifiers, and the two identifiers differ from each other.
\<close>

theorem cache_ids_stable_distinct:
  assumes "SystemPackages g \<noteq> []" and "SystemPackages g' \<noteq> []" and "identity g = identity g'"
  shows "cache_ids (compileSystemPackages (CacheID identity) g root) =
           cache_ids root @ [CacheID identity g ''/var/cache/apt'', CacheID identity g ''/var/lib/apt'']
       \<and> cache_ids (compileSystemPackages (CacheID identity) g' root') =
           cache_ids root' @ [CacheID identity g ''/var/cache/apt'', CacheID identity g ''/var/lib/apt'']
       \<and> CacheID identity g ''/var/cache/apt'' \<noteq> CacheID identity g ''/var/lib/apt''"
  using assms
  by (simp add: cache_ids_compileSystemPackages CacheID_def)

theorem cache_ids_stable_distinct_witness:
  "cache_ids (compileSystemPackages (CacheID example_identity)
      (zero_graph\<lparr>SystemPackages := [''vim'', ''git'']\<rparr>) []) =
     [''/var/cache/apt/demo'', ''/var/lib/apt/demo'']
   \<and> cache_ids (compileSystemPackages (CacheID example_identity)
      (zero_graph\<lparr>SystemPackages := [''curl''], uid := 1000\<rparr>) [ImageOp ''base'']) =
     [''/var/cache/apt/demo'', ''/var/lib/apt/demo'']"
  using cache_ids_stable_distinct [of "zero_graph\<lparr>SystemPackages := [''vim'', ''git'']\<rparr>"
      "zero_graph\<lparr>SystemPackages := [''curl''], uid := 1000\<rparr>" example_identity
      "[]" "[ImageOp ''base'']"]
  by (simp add: zero_graph_def CacheID_def example_identity_def cache_ids_def)

section \<open>The SSH key\<close>

text \<open>
  C8. When the key file is readable, \<open>copySSHKey\<close> succeeds and the content of the
  file written at the authorized-keys path is the content of the key file without one
  trailing newline (if it has one), followed by \<open>" envd"\<close>. The key
  \<open>"ssh-ed25519 AAAA...\n"\<close> gives \<open>"ssh-ed25519 AAAA... envd"\<close>.
\<close>

theorem copySSHKey_payload:
  assumes "ReadFile w (PublicKeyPath (DefaultGraph w)) = Inr content"
  shows "copySSHKey w g root =
     Inr (root @
       [FileOp (Mkdir ''/var/envd'' 493 True (uid g, gid g)) None,
        FileOp (Mkfile (ContainerAuthorizedKeysPath w) 420
                  ((if content \<noteq> [] \<and> last content = CHR 0x0A then butlast content else content)
                     @ '' envd'')
                  (uid g, gid g))
          (Some ''install ssh keys'')])"
  using assms by (simp add: copySSHKey_def llb_File_def TrimSuffix_single)

theorem copySSHKey_payload_witness:
  "ReadFile example_world (PublicKeyPath (DefaultGraph example_world)) =
     Inr (''ssh-ed25519 AAAA...'' @ [CHR 0x0A])
   \<and> copySSHKey example_world (DefaultGraph example_world) [] =
     Inr [FileOp (Mkdir ''/var/envd'' 493 True (0, 0)) None,
          FileOp (Mkfile ''/var/envd/authorized_keys'' 420 ''ssh-ed25519 AAAA... envd'' (0, 0))
            (Some ''install ssh keys'')]"
  using copySSHKey_payload [of example_world "''ssh-ed25519 AAAA...'' @ [CHR 0x0A]"
      "DefaultGraph example_world" "[]"]
  by (simp add: example_world_def example_files_def zero_graph_def)

text \<open>
  C9. The claim is that \<open>copySSHKey\<close> reads the file at the \<open>PublicKeyPath\<close> of the Graph
  it compiles and fails if and only if that file is unreadable. The code reads the path
  of the global \<open>DefaultGraph\<close> instead: for a Graph whose own key file is unreadable,
  \<open>copySSHKey\<close> succeeds and installs the key of \<open>DefaultGraph\<close>.
\<close>

theorem copySSHKey_reads_DefaultGraph:
  "ReadFile example_world (PublicKeyPath (zero_graph\<lparr>PublicKeyPath := ''/home/dev/.ssh/missing.pub''\<rparr>)) =
     Inl (Error ''no such file or directory'')
   \<and> copySSHKey example_world (zero_graph\<lparr>PublicKeyPath := ''/home/dev/.ssh/missing.pub''\<rparr>) [] =
     Inr [FileOp (Mkdir ''/var/envd'' 493 True (0, 0)) None,
          FileOp (Mkfile ''/var/envd/authorized_keys'' 420 ''ssh-ed25519 AAAA... envd'' (0, 0))
            (Some ''install ssh keys'')]"
  by (simp add: copySSHKey_def example_world_def example_files_def zero_graph_def llb_File_def
      TrimSuffix_def HasSuffix_def)

section \<open>Nil pointers in base compilation\<close>

text \<open>
  C10. With no custom image and at least one accelerator field set, \<open>compileBase\<close>
  takes the accelerator branch, whatever the language: the base is what
  \<open>compileCUDAPackages\<close> gives, which dereferences both fields. When both are set,
  \<open>compileBase\<close> hands the accelerator image reference built from both to the conda
  installation and returns the provisioning plan built on it (or the wrapped conda
  error), with the Graph unchanged. When exactly one is set, \<open>compileBase\<close> panics on the
  nil pointer. So, with no custom image, \<open>compileBase\<close> panics if and only if exactly one
  of the two fields is set.
\<close>

theorem compileBase_nil_dereference:
  assumes "Image_opt g = None"
  shows "(CUDA g = Some cuda \<and> CUDNN g = Some cudnn \<longrightarrow>
            compileCUDAPackages w g =
              Returns [ImageOp (''docker.io/'' @ DockerOrganization w @ ''/python:3.9-'' @ OS g
                         @ ''-cuda'' @ cuda @ ''-cudnn'' @ cudnn @ ''-envd-'' @ GitTag w)]
          \<and> compileBase installConda w g =
              (g, Returns (case installConda g
                     [ImageOp (''docker.io/'' @ DockerOrganization w @ ''/python:3.9-'' @ OS g
                        @ ''-cuda'' @ cuda @ ''-cudnn'' @ cudnn @ ''-envd-'' @ GitTag w)] of
                 Inl err \<Rightarrow> Inl (Wrap err ''failed to install conda'')
               | Inr condaStage \<Rightarrow>
                   Inr (llb_Root (if uid g = 0 then root_context condaStage
                                  else user_context g condaStage) @ [UserOp ''envd'']))))
       \<and> (CUDA g \<noteq> None \<or> CUDNN g \<noteq> None \<longrightarrow> select_base w g = (g, compileCUDAPackages w g))
       \<and> ((CUDA g = None) \<noteq> (CUDNN g = None) \<longrightarrow>
            compileCUDAPackages w g = Panics \<and> compileBase installConda w g = (g, Panics))
       \<and> (snd (compileBase installConda w g) = Panics) = ((CUDA g = None) \<noteq> (CUDNN g = None))"
  using assms
  by (cases "CUDA g"; cases "CUDNN g")
     (auto simp: compileBase_def select_base_def compileCUDAPackages_def llb_Image_def
        llb_User_def Let_def split: sum.splits)

theorem compileBase_nil_dereference_witness:
  "compileBase conda_ok example_world (zero_graph\<lparr>CUDA := Some ''11.6''\<rparr>) =
     (zero_graph\<lparr>CUDA := Some ''11.6''\<rparr>, Panics)
   \<and> compileBase conda_ok example_world (zero_graph\<lparr>CUDNN := Some ''8''\<rparr>) =
     (zero_graph\<lparr>CUDNN := Some ''8''\<rparr>, Panics)
   \<and> compileBase conda_ok example_world
       (zero_graph\<lparr>OS := ''ubuntu20.04'', Language := \<lparr>Name = ''r'', Version = None\<rparr>,
          CUDA := Some ''11.6'', CUDNN := Some ''8'', uid := 1000, gid := 1000\<rparr>) =
     (zero_graph\<lparr>OS := ''ubuntu20.04'', Language := \<lparr>Name = ''r'', Version = None\<rparr>,
          CUDA := Some ''11.6'', CUDNN := Some ''8'', uid := 1000, gid := 1000\<rparr>,
      Returns (Inr
        [ImageOp ''docker.io/tensorchord/python:3.9-ubuntu20.04-cuda11.6-cudnn8-envd-v0.1.0'',
         EnvOp ''CONDA_VERSION'' ''py39_4.11.0'',
         RunOp ''groupadd -g 1000 envd'' (Some ''[internal] create user group envd'') [],
         RunOp (''useradd -p '' @ quoted [] @ '' -u 1000 -g envd -s /bin/sh -m envd'')
           (Some ''[internal] create user envd'') [],
         RunOp ''adduser envd sudo'' (Some ''[internal] add user envd to sudoers'') [],
         RunOp ''chown -R envd:envd /usr/local/lib'' (Some ''[internal] configure user permissions'') [],
         RunOp ''chown -R envd:envd /opt/conda'' (Some ''[internal] configure user permissions'') [],
         UserOp ''envd'']))"
  using compileBase_nil_dereference [of "zero_graph\<lparr>CUDA := Some ''11.6''\<rparr>" "''11.6''" "''8''" example_world conda_ok]
    compileBase_nil_dereference [of "zero_graph\<lparr>CUDNN := Some ''8''\<rparr>" "''11.6''" "''8''" example_world conda_ok]
    compileBase_nil_dereference [of "zero_graph\<lparr>OS := ''ubuntu20.04'',
        Language := \<lparr>Name = ''r'', Version = None\<rparr>, CUDA := Some ''11.6'', CUDNN := Some ''8'',
        uid := 1000, gid := 1000\<rparr>" "''11.6''" "''8''" example_world conda_ok]
  by (simp add: zero_graph_def example_world_def conda_ok_def user_context_plan Sprintf_d_1000)

end
